theory Spec2Isabelle
  imports Complex_Main "HOL-Library.AList" "HOL-Library.Product_Lexorder" "HOL-Library.Sublist"
begin

section \<open>Python values held by the evaluation context\<close>

text \<open>
  The evaluation context of \<^verbatim>\<open>PolicyDecisionPoint.evaluate_all\<close> is a dict whose values come
  from the caller's \<^verbatim>\<open>attrs: Dict[str, Any]\<close>, so they are dynamically typed. The values
  the engine can tell apart are modelled here: \<^verbatim>\<open>None\<close>, booleans, numbers and strings.
  An int or a finite float is modelled by its exact rational value (Python compares ints and
  floats exactly); \<open>VInf\<close> is \<^verbatim>\<open>float("inf")\<close>, the default the engine itself supplies,
  \<open>VNegInf\<close> is \<^verbatim>\<open>float("-inf")\<close> and \<open>VNaN\<close> is \<^verbatim>\<open>float("nan")\<close>, which a caller can
  pass as an amount. Strings are byte lists (UTF-8), on which
  equality, \<^verbatim>\<open>startswith\<close>, \<^verbatim>\<open>endswith("*")\<close> and the code-point order agree with Python's.
\<close>

datatype pyval = VNone | VBool bool | VNum rat | VInf | VNegInf | VNaN | VStr string

datatype py_error = TypeError | AttributeError

datatype number = Fin rat | PosInf | NegInf | NaN

fun as_number :: "pyval \<Rightarrow> number option" where
  "as_number (VBool b) = Some (Fin (if b then 1 else 0))"
| "as_number (VNum x) = Some (Fin x)"
| "as_number VInf = Some PosInf"
| "as_number VNegInf = Some NegInf"
| "as_number VNaN = Some NaN"
| "as_number VNone = None"
| "as_number (VStr s) = None"

text \<open>Python's \<^verbatim>\<open><\<close> on numbers: every comparison with NaN is false and raises nothing.\<close>

fun num_lt :: "number \<Rightarrow> number \<Rightarrow> bool" where
  "num_lt NaN y = False"
| "num_lt x NaN = False"
| "num_lt PosInf y = False"
| "num_lt x PosInf = True"
| "num_lt x NegInf = False"
| "num_lt NegInf y = True"
| "num_lt (Fin x) (Fin y) = (x < y)"

text \<open>The order of the numbers as the specification means it: less or equal on the
  rationals extended by the two infinities; NaN is related to nothing.\<close>

definition num_le :: "number \<Rightarrow> number \<Rightarrow> bool" where
  "num_le x y = (x \<noteq> NaN \<and> y \<noteq> NaN \<and> (x = y \<or> num_lt x y))"

fun str_lt :: "string \<Rightarrow> string \<Rightarrow> bool" where
  "str_lt [] [] = False"
| "str_lt [] (y # ys) = True"
| "str_lt (x # xs) [] = False"
| "str_lt (x # xs) (y # ys) =
     (if (of_char x :: nat) < of_char y then True
      else if (of_char y :: nat) < of_char x then False
      else str_lt xs ys)"

text \<open>Python's \<^verbatim>\<open>a < b\<close>: numbers (bool and NaN included) compare by \<open>num_lt\<close>, two
  strings lexicographically, anything else raises \<^verbatim>\<open>TypeError\<close>.\<close>

fun py_lt :: "pyval \<Rightarrow> pyval \<Rightarrow> py_error + bool" where
  "py_lt (VStr s) (VStr t) = Inr (str_lt s t)"
| "py_lt a b =
     (case as_number a of
        None \<Rightarrow> Inl TypeError
      | Some x \<Rightarrow> (case as_number b of None \<Rightarrow> Inl TypeError | Some y \<Rightarrow> Inr (num_lt x y)))"

definition py_gt :: "pyval \<Rightarrow> pyval \<Rightarrow> py_error + bool" where
  "py_gt a b = py_lt b a"

section \<open>Data model\<close>

text \<open>
  A policy is a dict; a key the engine reads with \<^verbatim>\<open>.get\<close> may be absent, so each field
  is an option. The record describes the well-typed policies, those typed as the Policy
  table of the specification types them: id, level, effect and the three patterns are strings,
  priority is an integer and match is a mapping. The values of the \<^verbatim>\<open>match\<close> mapping stay
  dynamically typed. A policy dict that holds anything else under these keys (a priority
  "high", a null match or subject) is not a value of this type: on such data \<^verbatim>\<open>sorted\<close>,
  the \<^verbatim>\<open>in\<close> test and \<^verbatim>\<open>endswith\<close> can raise, and every statement below about a store is
  a statement about stores of well-typed policies only.
\<close>

record policy =
  p_id :: "string option"
  p_level :: "string option"
  p_priority :: "int option"
  p_action :: "string option"
  p_subject :: "string option"
  p_resource :: "string option"
  p_effect :: "string option"
  p_match :: "(string \<rightharpoonup> pyval) option"
  p_description :: "string option"

record match_result =
  m_policy :: "string option"
  m_level :: string
  m_priority :: int
  m_effect :: "string option"
  m_matches :: bool
  m_result :: string

record final_decision =
  allow :: bool
  effect :: string
  reason :: string
  matched_policy :: "string option"

record evaluation =
  r_matches :: "match_result list"
  r_final :: final_decision

type_synonym eval_context = "string \<rightharpoonup> pyval"

section \<open>Policy repository\<close>

text \<open>
  \<^verbatim>\<open>PolicyRepository.policies\<close> is a dict keyed by policy id; a Python dict keeps insertion
  order and an assignment to an existing key keeps that key's position, which is what
  \<^const>\<open>AList.update\<close> does on an association list. The three secondary indexes are never
  read by the engine and are left out.
\<close>

record repository =
  policies :: "(string \<times> policy) list"

definition empty_repository :: repository where
  "empty_repository = \<lparr>policies = []\<rparr>"

definition add_policy :: "repository \<Rightarrow> policy \<Rightarrow> repository" where
  "add_policy repo pol =
     (case p_id pol of
        None \<Rightarrow> repo
      | Some policy_id \<Rightarrow>
          if policy_id = [] then repo
          else repo\<lparr>policies := AList.update policy_id pol (policies repo)\<rparr>)"

definition list_repo :: "repository \<Rightarrow> policy list" where
  "list_repo repo = map snd (policies repo)"

definition get_repo :: "repository \<Rightarrow> string \<Rightarrow> policy option" where
  "get_repo repo policy_id = map_of (policies repo) policy_id"

definition size_repo :: "repository \<Rightarrow> nat" where
  "size_repo repo = length (policies repo)"

section \<open>Matching\<close>

definition endswith_star :: "string \<Rightarrow> bool" where
  "endswith_star s = (s \<noteq> [] \<and> last s = CHR ''*'')"

text \<open>\<^verbatim>\<open>_matches_pattern(pattern, value)\<close>. The pattern is a policy field (a string); the
  value comes from the context. \<^verbatim>\<open>pattern == value\<close> is false for a value that is not a
  string, and \<^verbatim>\<open>value.startswith\<close> raises \<^verbatim>\<open>AttributeError\<close> on one.\<close>

definition matches_pattern :: "string \<Rightarrow> pyval \<Rightarrow> py_error + bool" where
  "matches_pattern pattern val =
     (if pattern = ''*'' then Inr True
      else if VStr pattern = val then Inr True
      else if endswith_star pattern then
        (case val of
           VStr v \<Rightarrow> Inr (prefix (butlast pattern) v)
         | _ \<Rightarrow> Inl AttributeError)
      else Inr False)"

definition get_or :: "('k \<rightharpoonup> 'v) \<Rightarrow> 'k \<Rightarrow> 'v \<Rightarrow> 'v" where
  "get_or d k dflt = (case d k of None \<Rightarrow> dflt | Some v \<Rightarrow> v)"

definition opt_or :: "'a option \<Rightarrow> 'a \<Rightarrow> 'a" where
  "opt_or x dflt = (case x of None \<Rightarrow> dflt | Some v \<Rightarrow> v)"

text \<open>The two amount checks of \<^verbatim>\<open>_matches\<close>: \<open>Inr True\<close> means the check rejects the
  policy, \<open>Inr False\<close> that it passes (also when the key is absent from \<^verbatim>\<open>match\<close>).\<close>

definition amount_max_fails :: "(string \<rightharpoonup> pyval) \<Rightarrow> eval_context \<Rightarrow> py_error + bool" where
  "amount_max_fails mt ctx =
     (case mt ''amount_max'' of
        None \<Rightarrow> Inr False
      | Some bound \<Rightarrow> py_gt (get_or ctx ''amount'' VInf) bound)"

definition amount_min_fails :: "(string \<rightharpoonup> pyval) \<Rightarrow> eval_context \<Rightarrow> py_error + bool" where
  "amount_min_fails mt ctx =
     (case mt ''amount_min'' of
        None \<Rightarrow> Inr False
      | Some bound \<Rightarrow> py_lt (get_or ctx ''amount'' (VNum 0)) bound)"

definition matches :: "policy \<Rightarrow> eval_context \<Rightarrow> py_error + bool" where
  "matches pol ctx =
     (case matches_pattern (opt_or (p_action pol) ''*'') (get_or ctx ''action'' (VStr '''')) of
        Inl e \<Rightarrow> Inl e
      | Inr False \<Rightarrow> Inr False
      | Inr True \<Rightarrow>
     (case matches_pattern (opt_or (p_subject pol) ''*'') (get_or ctx ''subject'' (VStr '''')) of
        Inl e \<Rightarrow> Inl e
      | Inr False \<Rightarrow> Inr False
      | Inr True \<Rightarrow>
     (case matches_pattern (opt_or (p_resource pol) ''*'') (get_or ctx ''resource'' (VStr ''*'')) of
        Inl e \<Rightarrow> Inl e
      | Inr False \<Rightarrow> Inr False
      | Inr True \<Rightarrow>
     (let mt = opt_or (p_match pol) Map.empty in
      case amount_max_fails mt ctx of
        Inl e \<Rightarrow> Inl e
      | Inr True \<Rightarrow> Inr False
      | Inr False \<Rightarrow>
     (case amount_min_fails mt ctx of
        Inl e \<Rightarrow> Inl e
      | Inr True \<Rightarrow> Inr False
      | Inr False \<Rightarrow> Inr True)))))"

definition result_for_single_policy :: "policy \<Rightarrow> bool \<Rightarrow> string" where
  "result_for_single_policy pol mtch =
     (if \<not> mtch then ''not_applicable''
      else if p_effect pol = Some ''deny'' then ''deny''
      else if p_effect pol = Some ''allow'' then ''allow''
      else if p_effect pol = Some ''require_approval'' then ''require_approval''
      else ''unknown'')"

section \<open>Final decision\<close>

definition level_rank :: "string \<Rightarrow> nat" where
  "level_rank l =
     (if l = ''enterprise'' then 1
      else if l = ''domain'' then 2
      else if l = ''agent'' then 3
      else if l = ''runtime'' then 4
      else 3)"

definition sort_key_of :: "match_result \<Rightarrow> nat \<times> int" where
  "sort_key_of m = (level_rank (m_level m), m_priority m)"

text \<open>How an f-string renders the policy id: \<^verbatim>\<open>None\<close> prints as the word None.\<close>

definition str_of_id :: "string option \<Rightarrow> string" where
  "str_of_id i = (case i of None \<Rightarrow> ''None'' | Some s \<Rightarrow> s)"

definition applicable_sorted :: "match_result list \<Rightarrow> match_result list" where
  "applicable_sorted match_results = sort_key sort_key_of (filter m_matches match_results)"

text \<open>One precedence scan: the first entry of the sorted list with the given outcome.\<close>

definition scan :: "string \<Rightarrow> match_result list \<Rightarrow> match_result option" where
  "scan r ms = find (\<lambda>m. m_result m = r) ms"

definition compute_final_decision :: "match_result list \<Rightarrow> final_decision" where
  "compute_final_decision match_results =
     (if filter m_matches match_results = [] then
        \<lparr>allow = False, effect = ''deny'', reason = ''No matching policies'',
         matched_policy = Some ''default-deny''\<rparr>
      else
        let srt = applicable_sorted match_results in
        case scan ''deny'' srt of
          Some m \<Rightarrow>
            \<lparr>allow = False, effect = ''deny'',
             reason = ''Deny by policy '' @ str_of_id (m_policy m),
             matched_policy = m_policy m\<rparr>
        | None \<Rightarrow>
        (case scan ''require_approval'' srt of
          Some m \<Rightarrow>
            \<lparr>allow = False, effect = ''require_approval'',
             reason = ''Approval required by policy '' @ str_of_id (m_policy m),
             matched_policy = m_policy m\<rparr>
        | None \<Rightarrow>
        (case scan ''allow'' srt of
          Some m \<Rightarrow>
            \<lparr>allow = True, effect = ''allow'',
             reason = ''Allow by policy '' @ str_of_id (m_policy m),
             matched_policy = m_policy m\<rparr>
        | None \<Rightarrow>
            \<lparr>allow = False, effect = ''deny'', reason = ''Default deny'',
             matched_policy = Some ''default-deny''\<rparr>)))"

section \<open>Public entry points\<close>

text \<open>The context dict literal of \<^verbatim>\<open>evaluate_all\<close>: the three positional arguments, then
  \<^verbatim>\<open>**attrs\<close>, whose keys override earlier ones. \<^verbatim>\<open>resource or "*"\<close> replaces both
  \<^verbatim>\<open>None\<close> and the empty string.\<close>

definition build_context ::
  "string \<Rightarrow> string \<Rightarrow> string option \<Rightarrow> (string \<rightharpoonup> pyval) option \<Rightarrow> eval_context" where
  "build_context subject action resource attrs =
     [''subject'' \<mapsto> VStr subject,
      ''action'' \<mapsto> VStr action,
      ''resource'' \<mapsto> VStr (case resource of None \<Rightarrow> ''*'' | Some r \<Rightarrow> if r = [] then ''*'' else r)]
     ++ (case attrs of None \<Rightarrow> Map.empty | Some a \<Rightarrow> a)"

text \<open>The dict appended to \<^verbatim>\<open>match_results\<close> for one policy.\<close>

definition result_of :: "policy \<Rightarrow> bool \<Rightarrow> match_result" where
  "result_of p b =
     \<lparr>m_policy = p_id p,
      m_level = opt_or (p_level p) ''agent'',
      m_priority = opt_or (p_priority p) 50,
      m_effect = p_effect p,
      m_matches = b,
      m_result = result_for_single_policy p b\<rparr>"

text \<open>The loop over the policies; an exception raised by \<^verbatim>\<open>_matches\<close> leaves the loop.\<close>

fun match_loop :: "policy list \<Rightarrow> eval_context \<Rightarrow> py_error + match_result list" where
  "match_loop [] ctx = Inr []"
| "match_loop (p # ps) ctx =
     (case matches p ctx of
        Inl e \<Rightarrow> Inl e
      | Inr b \<Rightarrow>
          (case match_loop ps ctx of
             Inl e \<Rightarrow> Inl e
           | Inr rs \<Rightarrow> Inr (result_of p b # rs)))"

definition evaluate_all ::
  "repository \<Rightarrow> string \<Rightarrow> string \<Rightarrow> string option \<Rightarrow> (string \<rightharpoonup> pyval) option
     \<Rightarrow> py_error + evaluation" where
  "evaluate_all repo subject action resource attrs =
     (case match_loop (list_repo repo) (build_context subject action resource attrs) of
        Inl e \<Rightarrow> Inl e
      | Inr match_results \<Rightarrow>
          Inr \<lparr>r_matches = match_results, r_final = compute_final_decision match_results\<rparr>)"

definition evaluate ::
  "repository \<Rightarrow> string \<Rightarrow> string \<Rightarrow> string option \<Rightarrow> (string \<rightharpoonup> pyval) option
     \<Rightarrow> py_error + final_decision" where
  "evaluate repo subject action resource attrs =
     (case evaluate_all repo subject action resource attrs of
        Inl e \<Rightarrow> Inl e
      | Inr full \<Rightarrow> Inr (r_final full))"

section \<open>The payment scenario of the specification\<close>

text \<open>Three policies of the demo corpus: small transfers are allowed, transfers from 1000 up
  are denied, and the finance domain asks for approval from 10000 up.\<close>

definition P1 :: policy where
  "P1 = \<lparr>p_id = Some ''P1'', p_level = Some ''agent'', p_priority = Some 10,
          p_action = Some ''payment.transfer'', p_subject = Some ''*'', p_resource = None,
          p_effect = Some ''allow'', p_match = Some [''amount_max'' \<mapsto> VNum 999],
          p_description = None\<rparr>"

definition P2 :: policy where
  "P2 = \<lparr>p_id = Some ''P2'', p_level = Some ''agent'', p_priority = Some 10,
          p_action = Some ''payment.transfer'', p_subject = Some ''*'', p_resource = None,
          p_effect = Some ''deny'', p_match = Some [''amount_min'' \<mapsto> VNum 1000],
          p_description = None\<rparr>"

definition P3 :: policy where
  "P3 = \<lparr>p_id = Some ''P3'', p_level = Some ''domain'', p_priority = Some 20,
          p_action = Some ''payment.transfer'', p_subject = Some ''finance-*'', p_resource = None,
          p_effect = Some ''require_approval'', p_match = Some [''amount_min'' \<mapsto> VNum 10000],
          p_description = None\<rparr>"

definition payment_repo :: repository where
  "payment_repo = add_policy (add_policy (add_policy empty_repository P1) P2) P3"

text \<open>A trace with four matched allow results on different levels and one unmatched deny;
  the level "squad" is not one of the four known levels.\<close>

definition allow_trace :: "match_result list" where
  "allow_trace =
     [\<lparr>m_policy = Some ''agent-allow'', m_level = ''agent'', m_priority = 10,
       m_effect = Some ''allow'', m_matches = True, m_result = ''allow''\<rparr>,
      \<lparr>m_policy = Some ''ent-allow-late'', m_level = ''enterprise'', m_priority = 90,
       m_effect = Some ''allow'', m_matches = True, m_result = ''allow''\<rparr>,
      \<lparr>m_policy = Some ''ent-allow-early'', m_level = ''enterprise'', m_priority = 20,
       m_effect = Some ''allow'', m_matches = True, m_result = ''allow''\<rparr>,
      \<lparr>m_policy = Some ''squad-allow'', m_level = ''squad'', m_priority = 5,
       m_effect = Some ''allow'', m_matches = True, m_result = ''allow''\<rparr>,
      \<lparr>m_policy = Some ''dom-deny'', m_level = ''domain'', m_priority = 1,
       m_effect = Some ''deny'', m_matches = False, m_result = ''not_applicable''\<rparr>]"

text \<open>A policy whose effect is none of the three known ones, alone in a store.\<close>

definition P4 :: policy where
  "P4 = \<lparr>p_id = Some ''P4'', p_level = Some ''enterprise'', p_priority = Some 1,
          p_action = Some ''payment.*'', p_subject = None, p_resource = None,
          p_effect = Some ''audit'', p_match = None, p_description = None\<rparr>"

definition audit_repo :: repository where
  "audit_repo = add_policy empty_repository P4"

text \<open>Policies that constrain nothing but the amount: no action, subject or resource key,
  so each of the three patterns defaults to the star.\<close>

definition amount_max_policy :: "rat \<Rightarrow> policy" where
  "amount_max_policy B =
     \<lparr>p_id = Some ''max'', p_level = None, p_priority = None, p_action = None,
      p_subject = None, p_resource = None, p_effect = Some ''allow'',
      p_match = Some [''amount_max'' \<mapsto> VNum B], p_description = None\<rparr>"

definition amount_min_policy :: "rat \<Rightarrow> policy" where
  "amount_min_policy B =
     \<lparr>p_id = Some ''min'', p_level = None, p_priority = None, p_action = None,
      p_subject = None, p_resource = None, p_effect = Some ''deny'',
      p_match = Some [''amount_min'' \<mapsto> VNum B], p_description = None\<rparr>"

text \<open>A store holding only the finance approval policy.\<close>

definition approval_repo :: repository where
  "approval_repo = add_policy empty_repository P3"

section \<open>Well-typed requests and stores\<close>






section \<open>Evaluation rules for concrete inputs\<close>

lemmas pattern_defs = matches_pattern_def endswith_star_def

lemmas matches_defs = matches_def pattern_defs get_or_def opt_or_def amount_max_fails_def
  amount_min_fails_def py_gt_def

lemmas cfd_defs = compute_final_decision_def applicable_sorted_def scan_def sort_key_of_def
  level_rank_def str_of_id_def

lemma payment_repo_list: "list_repo payment_repo = [P1, P2, P3]"
  by (simp add: payment_repo_def add_policy_def empty_repository_def list_repo_def
      P1_def P2_def P3_def)

lemma payment_repo_size: "size_repo payment_repo = 3"
  by (simp add: payment_repo_def add_policy_def empty_repository_def size_repo_def
      P1_def P2_def P3_def)

section \<open>Pattern matching\<close>

lemma endswith_star_iff: "endswith_star p \<longleftrightarrow> (\<exists>pre. p = pre @ ''*'')"
  unfolding endswith_star_def
proof
  assume "p \<noteq> [] \<and> last p = CHR ''*''"
  then have "p = butlast p @ ''*''" by (metis append_butlast_last_id)
  then show "\<exists>pre. p = pre @ ''*''" ..
next
  assume "\<exists>pre. p = pre @ ''*''"
  then show "p \<noteq> [] \<and> last p = CHR ''*''" by auto
qed

lemma matches_pattern_str:
  "matches_pattern p (VStr v) =
     Inr (p = ''*'' \<or> p = v \<or> (\<exists>pre. p = pre @ ''*'' \<and> prefix pre v))"
proof (cases "endswith_star p")
  case True
  then obtain pre where p: "p = pre @ ''*''" using endswith_star_iff by blast
  then show ?thesis using True by (auto simp: matches_pattern_def)
next
  case False
  then have "\<not> (\<exists>pre. p = pre @ ''*'')" using endswith_star_iff by blast
  then show ?thesis using False by (auto simp: matches_pattern_def)
qed

text \<open>
  C6. On strings, \<open>matches_pattern p v\<close> never raises and is true exactly when \<open>p\<close> is the
  lone star, or \<open>p\<close> equals \<open>v\<close>, or \<open>p\<close> ends with a star and \<open>v\<close> starts with what precedes
  that star. The remaining conjuncts are the four examples of the specification and four
  inputs showing what is not supported: letter case is not folded, a dot and a star are not a
  regular expression, and a star at the front or in the middle is an ordinary character.
\<close>

theorem matches_pattern_characterisation:
  "(\<forall>p v. matches_pattern p (VStr v) =
       Inr (p = ''*'' \<or> p = v \<or> (\<exists>pre. p = pre @ ''*'' \<and> prefix pre v)))
   \<and> matches_pattern ''payment-*'' (VStr ''payment-agent-1'') = Inr True
   \<and> matches_pattern ''payment-*'' (VStr ''finance-agent-1'') = Inr False
   \<and> (\<forall>v. matches_pattern ''*'' v = Inr True)
   \<and> matches_pattern ''finance-agent-1'' (VStr ''finance-agent-1'') = Inr True
   \<and> matches_pattern ''Payment-*'' (VStr ''payment-agent-1'') = Inr False
   \<and> matches_pattern ''pay.*'' (VStr ''payment'') = Inr False
   \<and> matches_pattern ''*-agent'' (VStr ''payment-agent'') = Inr False
   \<and> matches_pattern ''pay*-1'' (VStr ''payment-1'') = Inr False"
proof -
  have general: "\<forall>p v. matches_pattern p (VStr v) =
       Inr (p = ''*'' \<or> p = v \<or> (\<exists>pre. p = pre @ ''*'' \<and> prefix pre v))"
    using matches_pattern_str by blast
  have star: "\<forall>v. matches_pattern ''*'' v = Inr True"
    by (simp add: matches_pattern_def)
  have examples:
    "matches_pattern ''payment-*'' (VStr ''payment-agent-1'') = Inr True"
    "matches_pattern ''payment-*'' (VStr ''finance-agent-1'') = Inr False"
    "matches_pattern ''finance-agent-1'' (VStr ''finance-agent-1'') = Inr True"
    "matches_pattern ''Payment-*'' (VStr ''payment-agent-1'') = Inr False"
    "matches_pattern ''pay.*'' (VStr ''payment'') = Inr False"
    "matches_pattern ''*-agent'' (VStr ''payment-agent'') = Inr False"
    "matches_pattern ''pay*-1'' (VStr ''payment-1'') = Inr False"
    by (simp_all add: pattern_defs)
  from general star examples show ?thesis by blast
qed

theorem matches_pattern_characterisation_witness:
  "matches_pattern ''fin*'' (VStr ''finance'') = Inr True
   \<and> matches_pattern ''fin*'' (VStr ''FINANCE'') = Inr False"
proof -
  have g: "\<And>p v. matches_pattern p (VStr v) =
       Inr (p = ''*'' \<or> p = v \<or> (\<exists>pre. p = pre @ ''*'' \<and> prefix pre v))"
    using matches_pattern_characterisation by blast
  have "matches_pattern ''fin*'' (VStr ''finance'') = Inr True"
    unfolding g [of "''fin*''" "''finance''"] by simp
  moreover have "matches_pattern ''fin*'' (VStr ''FINANCE'') = Inr False"
    unfolding g [of "''fin*''" "''FINANCE''"] by simp
  ultimately show ?thesis by simp
qed

section \<open>Sorting and scanning\<close>

lemma find_sorted_min:
  fixes f :: "'a \<Rightarrow> 'k::linorder"
  shows "sorted (map f ys) \<Longrightarrow> find P ys = Some m \<Longrightarrow>
    m \<in> set ys \<and> P m \<and> (\<forall>m'\<in>set ys. P m' \<longrightarrow> f m \<le> f m')"
  by (induction ys) (auto split: if_splits)

lemma set_applicable_sorted:
  "set (applicable_sorted ms) = {m \<in> set ms. m_matches m}"
  by (auto simp: applicable_sorted_def)

lemma scan_Some:
  assumes "scan r (applicable_sorted ms) = Some m"
  shows "m \<in> set ms \<and> m_matches m \<and> m_result m = r
    \<and> (\<forall>m'\<in>set ms. m_matches m' \<and> m_result m' = r \<longrightarrow> sort_key_of m \<le> sort_key_of m')"
proof -
  have "sorted (map sort_key_of (applicable_sorted ms))"
    by (simp add: applicable_sorted_def)
  from find_sorted_min [OF this, of "\<lambda>m. m_result m = r" m] assms
  have "m \<in> set (applicable_sorted ms) \<and> m_result m = r
    \<and> (\<forall>m'\<in>set (applicable_sorted ms). m_result m' = r \<longrightarrow> sort_key_of m \<le> sort_key_of m')"
    by (simp add: scan_def)
  then show ?thesis by (simp add: set_applicable_sorted)
qed

lemma scan_None:
  "scan r (applicable_sorted ms) = None \<longleftrightarrow> \<not> (\<exists>m\<in>set ms. m_matches m \<and> m_result m = r)"
  by (auto simp: scan_def find_None_iff set_applicable_sorted)

lemma applicable_empty:
  "filter m_matches ms = [] \<longleftrightarrow> \<not> (\<exists>m\<in>set ms. m_matches m)"
  by (auto simp: filter_empty_conv)

section \<open>The per-policy loop\<close>

lemma match_loop_Inr:
  "match_loop ps ctx = Inr rs \<Longrightarrow>
     list_all2 (\<lambda>p m. \<exists>b. matches p ctx = Inr b \<and> m = result_of p b) ps rs"
  by (induction ps arbitrary: rs) (auto split: sum.splits)

lemma match_loop_total:
  "(\<forall>p\<in>set ps. \<exists>b. matches p ctx = Inr b) \<Longrightarrow> \<exists>rs. match_loop ps ctx = Inr rs"
  by (induction ps) (auto split: sum.splits)

lemma match_loop_result_matches:
  assumes "match_loop ps ctx = Inr rs" "m \<in> set rs" "m_result m \<noteq> ''not_applicable''"
  shows "m_matches m"
proof -
  from match_loop_Inr [OF assms(1)] assms(2)
  obtain p b where "m = result_of p b"
    by (auto simp: list_all2_conv_all_nth in_set_conv_nth)
  with assms(3) show ?thesis
    by (auto simp: result_of_def result_for_single_policy_def split: if_splits)
qed


section \<open>Final decision\<close>

lemma cfd_no_applicable:
  "\<not> (\<exists>m\<in>set ms. m_matches m) \<Longrightarrow>
   compute_final_decision ms =
     \<lparr>allow = False, effect = ''deny'', reason = ''No matching policies'',
      matched_policy = Some ''default-deny''\<rparr>"
  by (simp add: compute_final_decision_def applicable_empty)

lemma cfd_deny:
  assumes "scan ''deny'' (applicable_sorted ms) = Some m"
  shows "compute_final_decision ms =
     \<lparr>allow = False, effect = ''deny'', reason = ''Deny by policy '' @ str_of_id (m_policy m),
      matched_policy = m_policy m\<rparr>"
proof -
  from scan_Some [OF assms] have "filter m_matches ms \<noteq> []"
    by (auto simp: applicable_empty)
  with assms show ?thesis by (simp add: compute_final_decision_def)
qed

lemma cfd_require_approval:
  assumes "scan ''deny'' (applicable_sorted ms) = None"
    and "scan ''require_approval'' (applicable_sorted ms) = Some m"
  shows "compute_final_decision ms =
     \<lparr>allow = False, effect = ''require_approval'',
      reason = ''Approval required by policy '' @ str_of_id (m_policy m),
      matched_policy = m_policy m\<rparr>"
proof -
  from scan_Some [OF assms(2)] have "filter m_matches ms \<noteq> []"
    by (auto simp: applicable_empty)
  with assms show ?thesis by (simp add: compute_final_decision_def)
qed

lemma cfd_allow:
  assumes "scan ''deny'' (applicable_sorted ms) = None"
    and "scan ''require_approval'' (applicable_sorted ms) = None"
    and "scan ''allow'' (applicable_sorted ms) = Some m"
  shows "compute_final_decision ms =
     \<lparr>allow = True, effect = ''allow'', reason = ''Allow by policy '' @ str_of_id (m_policy m),
      matched_policy = m_policy m\<rparr>"
proof -
  from scan_Some [OF assms(3)] have "filter m_matches ms \<noteq> []"
    by (auto simp: applicable_empty)
  with assms show ?thesis by (simp add: compute_final_decision_def)
qed

lemma cfd_fallback:
  assumes "\<exists>m\<in>set ms. m_matches m"
    and "scan ''deny'' (applicable_sorted ms) = None"
    and "scan ''require_approval'' (applicable_sorted ms) = None"
    and "scan ''allow'' (applicable_sorted ms) = None"
  shows "compute_final_decision ms =
     \<lparr>allow = False, effect = ''deny'', reason = ''Default deny'',
      matched_policy = Some ''default-deny''\<rparr>"
proof -
  from assms(1) have "filter m_matches ms \<noteq> []"
    by (simp add: applicable_empty)
  with assms show ?thesis by (simp add: compute_final_decision_def)
qed

lemma cfd_has_deny:
  assumes "m \<in> set ms" "m_matches m" "m_result m = ''deny''"
  shows "effect (compute_final_decision ms) = ''deny'' \<and> \<not> allow (compute_final_decision ms)"
proof -
  from assms have "scan ''deny'' (applicable_sorted ms) \<noteq> None"
    by (auto simp: scan_None)
  then obtain w where "scan ''deny'' (applicable_sorted ms) = Some w" by blast
  from cfd_deny [OF this] show ?thesis by simp
qed

lemma evaluate_of_evaluate_all:
  "evaluate_all repo s a r attrs = Inr out \<Longrightarrow> evaluate repo s a r attrs = Inr (r_final out)"
  by (simp add: evaluate_def)

lemma evaluate_all_Inr:
  "evaluate_all repo s a r attrs = Inr out \<Longrightarrow>
     match_loop (list_repo repo) (build_context s a r attrs) = Inr (r_matches out)
     \<and> r_final out = compute_final_decision (r_matches out)"
  by (auto simp: evaluate_all_def split: sum.splits)

text \<open>
  C1 (deny supremacy). If the match results handed to \<open>compute_final_decision\<close> contain a
  matched result whose outcome is deny, the final decision has effect deny and allow = False,
  whatever the levels and priorities of the other results. The same holds for the public
  entry points: when \<open>evaluate_all\<close> returns a trace containing an outcome deny, its final
  decision, which is also what \<open>evaluate\<close> returns, is a deny.
\<close>

theorem deny_supremacy:
  "(\<forall>ms. (\<exists>m\<in>set ms. m_matches m \<and> m_result m = ''deny'') \<longrightarrow>
      effect (compute_final_decision ms) = ''deny'' \<and> \<not> allow (compute_final_decision ms))
   \<and> (\<forall>repo s a r attrs out.
        evaluate_all repo s a r attrs = Inr out \<and> (\<exists>m\<in>set (r_matches out). m_result m = ''deny'')
        \<longrightarrow> evaluate repo s a r attrs = Inr (r_final out)
            \<and> effect (r_final out) = ''deny'' \<and> \<not> allow (r_final out))"
proof (intro conjI allI impI)
  fix ms :: "match_result list"
  assume "\<exists>m\<in>set ms. m_matches m \<and> m_result m = ''deny''"
  then obtain m where "m \<in> set ms" "m_matches m" "m_result m = ''deny''" by blast
  then show "effect (compute_final_decision ms) = ''deny''"
    and "\<not> allow (compute_final_decision ms)"
    using cfd_has_deny by blast+
next
  fix repo s a r attrs and out :: evaluation
  assume h: "evaluate_all repo s a r attrs = Inr out
    \<and> (\<exists>m\<in>set (r_matches out). m_result m = ''deny'')"
  then obtain m where m: "m \<in> set (r_matches out)" "m_result m = ''deny''" by blast
  from h evaluate_all_Inr
  have loop: "match_loop (list_repo repo) (build_context s a r attrs) = Inr (r_matches out)"
    and fin: "r_final out = compute_final_decision (r_matches out)" by blast+
  from m have "m_result m \<noteq> ''not_applicable''" by simp
  from match_loop_result_matches [OF loop m(1) this] have "m_matches m" .
  from cfd_has_deny [OF m(1) this m(2)] fin
  show "effect (r_final out) = ''deny''" and "\<not> allow (r_final out)" by simp_all
  from h show "evaluate repo s a r attrs = Inr (r_final out)"
    by (simp add: evaluate_of_evaluate_all)
qed

subsection \<open>A transfer of 15000 by the finance agent\<close>

lemma big_transfer_matches:
  "matches P1 (build_context ''finance-agent-1'' ''payment.transfer'' None
      (Some [''amount'' \<mapsto> VNum 15000])) = Inr False"
  "matches P2 (build_context ''finance-agent-1'' ''payment.transfer'' None
      (Some [''amount'' \<mapsto> VNum 15000])) = Inr True"
  "matches P3 (build_context ''finance-agent-1'' ''payment.transfer'' None
      (Some [''amount'' \<mapsto> VNum 15000])) = Inr True"
  by (simp_all add: matches_defs build_context_def P1_def P2_def P3_def)

lemma big_transfer_trace:
  "evaluate_all payment_repo ''finance-agent-1'' ''payment.transfer'' None
      (Some [''amount'' \<mapsto> VNum 15000]) =
   Inr \<lparr>r_matches = [result_of P1 False, result_of P2 True, result_of P3 True],
        r_final = compute_final_decision [result_of P1 False, result_of P2 True, result_of P3 True]\<rparr>"
  by (simp add: evaluate_all_def payment_repo_list big_transfer_matches)

lemma payment_results:
  "m_result (result_of P1 b) = (if b then ''allow'' else ''not_applicable'')"
  "m_result (result_of P2 b) = (if b then ''deny'' else ''not_applicable'')"
  "m_result (result_of P3 b) = (if b then ''require_approval'' else ''not_applicable'')"
  "m_matches (result_of p b) = b"
  by (simp_all add: result_of_def result_for_single_policy_def P1_def P2_def P3_def)

theorem deny_supremacy_witness:
  "(\<exists>m\<in>set [result_of P1 False, result_of P2 True, result_of P3 True].
       m_matches m \<and> m_result m = ''deny'')
   \<and> effect (compute_final_decision [result_of P1 False, result_of P2 True, result_of P3 True])
       = ''deny''
   \<and> \<not> allow (compute_final_decision [result_of P1 False, result_of P2 True, result_of P3 True])
   \<and> (\<exists>out. evaluate_all payment_repo ''finance-agent-1'' ''payment.transfer'' None
                (Some [''amount'' \<mapsto> VNum 15000]) = Inr out
          \<and> (\<exists>m\<in>set (r_matches out). m_result m = ''deny'')
          \<and> evaluate payment_repo ''finance-agent-1'' ''payment.transfer'' None
                (Some [''amount'' \<mapsto> VNum 15000]) = Inr (r_final out)
          \<and> effect (r_final out) = ''deny'' \<and> \<not> allow (r_final out))"
proof -
  let ?ms = "[result_of P1 False, result_of P2 True, result_of P3 True]"
  let ?out = "\<lparr>r_matches = ?ms, r_final = compute_final_decision ?ms\<rparr>"
  have hyp1: "\<exists>m\<in>set ?ms. m_matches m \<and> m_result m = ''deny''"
    by (simp add: payment_results)
  have hyp2: "\<exists>m\<in>set (r_matches ?out). m_result m = ''deny''"
    by (simp add: payment_results)
  from deny_supremacy hyp1
  have c1: "effect (compute_final_decision ?ms) = ''deny'' \<and> \<not> allow (compute_final_decision ?ms)"
    by blast
  from deny_supremacy big_transfer_trace hyp2
  have c2: "evaluate payment_repo ''finance-agent-1'' ''payment.transfer'' None
                (Some [''amount'' \<mapsto> VNum 15000]) = Inr (r_final ?out)
     \<and> effect (r_final ?out) = ''deny'' \<and> \<not> allow (r_final ?out)"
    by blast
  from hyp1 c1 big_transfer_trace hyp2 c2 show ?thesis by blast
qed

subsection \<open>Default deny\<close>

lemma match_loop_all_false:
  "(\<forall>p\<in>set ps. matches p ctx = Inr False) \<Longrightarrow>
     match_loop ps ctx = Inr (map (\<lambda>p. result_of p False) ps)"
  by (induction ps) simp_all

text \<open>
  C2 (default deny). When no policy of the store matches the request, that is when
  \<open>matches\<close> returns False for every listed policy, \<open>evaluate\<close> returns exactly
  allow = False, effect deny, reason "No matching policies", matched_policy "default-deny".
\<close>

theorem default_deny:
  assumes "\<forall>p\<in>set (list_repo repo). matches p (build_context s a r attrs) = Inr False"
  shows "evaluate repo s a r attrs =
     Inr \<lparr>allow = False, effect = ''deny'', reason = ''No matching policies'',
          matched_policy = Some ''default-deny''\<rparr>"
proof -
  let ?rs = "map (\<lambda>p. result_of p False) (list_repo repo)"
  from match_loop_all_false [OF assms]
  have loop: "match_loop (list_repo repo) (build_context s a r attrs) = Inr ?rs" .
  have "\<not> (\<exists>m\<in>set ?rs. m_matches m)" by (auto simp: result_of_def)
  from cfd_no_applicable [OF this] loop show ?thesis
    by (simp add: evaluate_def evaluate_all_def)
qed

theorem default_deny_witness:
  "list_repo payment_repo = [P1, P2, P3]
   \<and> matches P1 (build_context ''finance-agent-1'' ''data.export'' (Some ''external'') None)
       = Inr False
   \<and> matches P2 (build_context ''finance-agent-1'' ''data.export'' (Some ''external'') None)
       = Inr False
   \<and> matches P3 (build_context ''finance-agent-1'' ''data.export'' (Some ''external'') None)
       = Inr False
   \<and> evaluate payment_repo ''finance-agent-1'' ''data.export'' (Some ''external'') None =
     Inr \<lparr>allow = False, effect = ''deny'', reason = ''No matching policies'',
          matched_policy = Some ''default-deny''\<rparr>"
proof -
  let ?ctx = "build_context ''finance-agent-1'' ''data.export'' (Some ''external'') None"
  have none: "matches P1 ?ctx = Inr False" "matches P2 ?ctx = Inr False"
    "matches P3 ?ctx = Inr False"
    by (simp_all add: matches_defs build_context_def P1_def P2_def P3_def)
  then have hyp: "\<forall>p\<in>set (list_repo payment_repo). matches p ?ctx = Inr False"
    by (simp add: payment_repo_list)
  from payment_repo_list none default_deny [OF hyp] show ?thesis by blast
qed

subsection \<open>Tie-break inside the winning effect class\<close>

lemma cfd_selects:
  assumes "\<exists>m\<in>set ms. m_matches m
      \<and> (m_result m = ''deny'' \<or> m_result m = ''require_approval'' \<or> m_result m = ''allow'')"
  shows "\<exists>w. scan (effect (compute_final_decision ms)) (applicable_sorted ms) = Some w
      \<and> matched_policy (compute_final_decision ms) = m_policy w"
proof (cases "scan ''deny'' (applicable_sorted ms)")
  case (Some w)
  from cfd_deny [OF Some] Some show ?thesis by simp
next
  case noDeny: None
  show ?thesis
  proof (cases "scan ''require_approval'' (applicable_sorted ms)")
    case (Some w)
    from cfd_require_approval [OF noDeny Some] Some show ?thesis by simp
  next
    case noApproval: None
    show ?thesis
    proof (cases "scan ''allow'' (applicable_sorted ms)")
      case (Some w)
      from cfd_allow [OF noDeny noApproval Some] Some show ?thesis by simp
    next
      case None
      with noDeny noApproval assms show ?thesis by (auto simp: scan_None)
    qed
  qed
qed

lemma cfd_winning_class:
  "effect (compute_final_decision ms) =
     (if \<exists>m\<in>set ms. m_matches m \<and> m_result m = ''deny'' then ''deny''
      else if \<exists>m\<in>set ms. m_matches m \<and> m_result m = ''require_approval''
        then ''require_approval''
      else if \<exists>m\<in>set ms. m_matches m \<and> m_result m = ''allow'' then ''allow''
      else ''deny'')"
proof (cases "scan ''deny'' (applicable_sorted ms)")
  case (Some w)
  from cfd_deny [OF Some] scan_Some [OF Some] show ?thesis by auto
next
  case noDeny: None
  then have nd: "\<not> (\<exists>m\<in>set ms. m_matches m \<and> m_result m = ''deny'')"
    by (simp add: scan_None)
  show ?thesis
  proof (cases "scan ''require_approval'' (applicable_sorted ms)")
    case (Some w)
    from cfd_require_approval [OF noDeny Some] scan_Some [OF Some] nd show ?thesis by auto
  next
    case noApproval: None
    then have na: "\<not> (\<exists>m\<in>set ms. m_matches m \<and> m_result m = ''require_approval'')"
      by (simp add: scan_None)
    show ?thesis
    proof (cases "scan ''allow'' (applicable_sorted ms)")
      case (Some w)
      from cfd_allow [OF noDeny noApproval Some] scan_Some [OF Some] nd na
      show ?thesis by auto
    next
      case None
      then have nal: "\<not> (\<exists>m\<in>set ms. m_matches m \<and> m_result m = ''allow'')"
        by (simp add: scan_None)
      show ?thesis
      proof (cases "\<exists>m\<in>set ms. m_matches m")
        case True
        from cfd_fallback [OF True noDeny noApproval None] nd na nal show ?thesis by simp
      next
        case False
        from cfd_no_applicable [OF False] nd na nal show ?thesis by simp
      qed
    qed
  qed
qed

text \<open>
  C3 (within-class tie-break). When at least one matched result has a recognised outcome,
  the final effect is the winning class (deny if any matched deny, else require_approval if
  any, else allow), and the reported matched_policy is the id of a matched result \<open>w\<close> of that
  class whose pair (level rank, priority) is lexicographically least among the matched
  results of that class. The level rank is 1 for enterprise, 2 for domain, 3 for agent,
  4 for runtime and 3 for every other level.
\<close>

theorem within_class_tie_break:
  assumes "\<exists>m\<in>set ms. m_matches m
      \<and> (m_result m = ''deny'' \<or> m_result m = ''require_approval'' \<or> m_result m = ''allow'')"
  shows "(\<exists>w\<in>set ms. m_matches w
        \<and> m_result w = effect (compute_final_decision ms)
        \<and> matched_policy (compute_final_decision ms) = m_policy w
        \<and> (\<forall>m'\<in>set ms. m_matches m' \<and> m_result m' = effect (compute_final_decision ms) \<longrightarrow>
              level_rank (m_level w) < level_rank (m_level m')
              \<or> (level_rank (m_level w) = level_rank (m_level m')
                  \<and> m_priority w \<le> m_priority m')))
    \<and> effect (compute_final_decision ms) =
        (if \<exists>m\<in>set ms. m_matches m \<and> m_result m = ''deny'' then ''deny''
         else if \<exists>m\<in>set ms. m_matches m \<and> m_result m = ''require_approval''
           then ''require_approval''
         else ''allow'')
    \<and> level_rank ''enterprise'' = 1 \<and> level_rank ''domain'' = 2
    \<and> level_rank ''agent'' = 3 \<and> level_rank ''runtime'' = 4
    \<and> (\<forall>l. l \<noteq> ''enterprise'' \<and> l \<noteq> ''domain'' \<and> l \<noteq> ''agent'' \<and> l \<noteq> ''runtime''
          \<longrightarrow> level_rank l = 3)"
proof -
  from cfd_selects [OF assms] obtain w
    where w: "scan (effect (compute_final_decision ms)) (applicable_sorted ms) = Some w"
      and pol: "matched_policy (compute_final_decision ms) = m_policy w" by blast
  from scan_Some [OF w]
  have sel: "w \<in> set ms" "m_matches w" "m_result w = effect (compute_final_decision ms)"
    and least: "\<forall>m'\<in>set ms. m_matches m' \<and> m_result m' = effect (compute_final_decision ms)
        \<longrightarrow> sort_key_of w \<le> sort_key_of m'"
    by blast+
  have lex: "\<forall>m'\<in>set ms. m_matches m' \<and> m_result m' = effect (compute_final_decision ms) \<longrightarrow>
      level_rank (m_level w) < level_rank (m_level m')
      \<or> (level_rank (m_level w) = level_rank (m_level m') \<and> m_priority w \<le> m_priority m')"
    using least by (auto simp: sort_key_of_def less_eq_prod_def)
  have part1: "\<exists>w\<in>set ms. m_matches w
        \<and> m_result w = effect (compute_final_decision ms)
        \<and> matched_policy (compute_final_decision ms) = m_policy w
        \<and> (\<forall>m'\<in>set ms. m_matches m' \<and> m_result m' = effect (compute_final_decision ms) \<longrightarrow>
              level_rank (m_level w) < level_rank (m_level m')
              \<or> (level_rank (m_level w) = level_rank (m_level m')
                  \<and> m_priority w \<le> m_priority m'))"
    using sel pol lex by blast
  have part2: "effect (compute_final_decision ms) =
        (if \<exists>m\<in>set ms. m_matches m \<and> m_result m = ''deny'' then ''deny''
         else if \<exists>m\<in>set ms. m_matches m \<and> m_result m = ''require_approval''
           then ''require_approval''
         else ''allow'')"
    using assms by (auto simp: cfd_winning_class)
  have part3: "level_rank ''enterprise'' = 1 \<and> level_rank ''domain'' = 2
    \<and> level_rank ''agent'' = 3 \<and> level_rank ''runtime'' = 4
    \<and> (\<forall>l. l \<noteq> ''enterprise'' \<and> l \<noteq> ''domain'' \<and> l \<noteq> ''agent'' \<and> l \<noteq> ''runtime''
          \<longrightarrow> level_rank l = 3)"
    by (simp add: level_rank_def)
  from part1 part2 part3 show ?thesis by blast
qed

lemma allow_trace_decision:
  "compute_final_decision allow_trace =
     \<lparr>allow = True, effect = ''allow'', reason = ''Allow by policy ent-allow-early'',
      matched_policy = Some ''ent-allow-early''\<rparr>"
  by (simp add: cfd_defs allow_trace_def)

theorem within_class_tie_break_witness:
  "(\<exists>m\<in>set allow_trace. m_matches m
      \<and> (m_result m = ''deny'' \<or> m_result m = ''require_approval'' \<or> m_result m = ''allow''))
   \<and> (\<exists>w\<in>set allow_trace. m_matches w \<and> m_result w = ''allow''
        \<and> Some ''ent-allow-early'' = m_policy w
        \<and> (\<forall>m'\<in>set allow_trace. m_matches m' \<and> m_result m' = ''allow'' \<longrightarrow>
              level_rank (m_level w) < level_rank (m_level m')
              \<or> (level_rank (m_level w) = level_rank (m_level m')
                  \<and> m_priority w \<le> m_priority m')))
   \<and> matched_policy (compute_final_decision allow_trace) = Some ''ent-allow-early''"
proof -
  have hyp: "\<exists>m\<in>set allow_trace. m_matches m
      \<and> (m_result m = ''deny'' \<or> m_result m = ''require_approval'' \<or> m_result m = ''allow'')"
    by (simp add: allow_trace_def)
  have eff: "effect (compute_final_decision allow_trace) = ''allow''"
    and pol: "matched_policy (compute_final_decision allow_trace) = Some ''ent-allow-early''"
    by (simp_all add: allow_trace_decision)
  from within_class_tie_break [OF hyp]
  have "\<exists>w\<in>set allow_trace. m_matches w
        \<and> m_result w = effect (compute_final_decision allow_trace)
        \<and> matched_policy (compute_final_decision allow_trace) = m_policy w
        \<and> (\<forall>m'\<in>set allow_trace.
              m_matches m' \<and> m_result m' = effect (compute_final_decision allow_trace) \<longrightarrow>
              level_rank (m_level w) < level_rank (m_level m')
              \<or> (level_rank (m_level w) = level_rank (m_level m')
                  \<and> m_priority w \<le> m_priority m'))"
    by (rule conjunct1)
  then have "\<exists>w\<in>set allow_trace. m_matches w \<and> m_result w = ''allow''
        \<and> Some ''ent-allow-early'' = m_policy w
        \<and> (\<forall>m'\<in>set allow_trace. m_matches m' \<and> m_result m' = ''allow'' \<longrightarrow>
              level_rank (m_level w) < level_rank (m_level m')
              \<or> (level_rank (m_level w) = level_rank (m_level m')
                  \<and> m_priority w \<le> m_priority m'))"
    unfolding eff pol .
  with hyp pol show ?thesis by blast
qed

subsection \<open>Unrecognised effects\<close>

lemma audit_repo_list: "list_repo audit_repo = [P4]"
  by (simp add: audit_repo_def add_policy_def empty_repository_def list_repo_def P4_def)

lemma audit_matches:
  "matches P4 (build_context ''payment-agent-1'' ''payment.transfer'' None None) = Inr True"
  by (simp add: matches_defs build_context_def P4_def)

lemma audit_trace:
  "evaluate_all audit_repo ''payment-agent-1'' ''payment.transfer'' None None =
     Inr \<lparr>r_matches = [result_of P4 True],
          r_final = compute_final_decision [result_of P4 True]\<rparr>"
  by (simp add: evaluate_all_def audit_repo_list audit_matches)

text \<open>
  C4 (unrecognised effect). A matched policy whose effect is none of allow, deny and
  require_approval gets the outcome "unknown"; a result with outcome "unknown" is returned by
  none of the three precedence scans; and when some result matched and every matched result
  has outcome "unknown", the final decision is allow = False, effect deny, matched_policy
  "default-deny" (with the reason "Default deny").
\<close>

theorem unknown_effect_never_selected:
  "(p_effect pol \<noteq> Some ''allow'' \<and> p_effect pol \<noteq> Some ''deny''
      \<and> p_effect pol \<noteq> Some ''require_approval''
      \<longrightarrow> result_for_single_policy pol True = ''unknown'')
   \<and> (\<forall>m. m_result m = ''unknown'' \<longrightarrow>
         scan ''deny'' (applicable_sorted ms) \<noteq> Some m
         \<and> scan ''require_approval'' (applicable_sorted ms) \<noteq> Some m
         \<and> scan ''allow'' (applicable_sorted ms) \<noteq> Some m)
   \<and> ((\<exists>m\<in>set ms. m_matches m) \<and> (\<forall>m\<in>set ms. m_matches m \<longrightarrow> m_result m = ''unknown'')
      \<longrightarrow> compute_final_decision ms =
            \<lparr>allow = False, effect = ''deny'', reason = ''Default deny'',
             matched_policy = Some ''default-deny''\<rparr>)"
proof (intro conjI allI impI)
  assume "p_effect pol \<noteq> Some ''allow'' \<and> p_effect pol \<noteq> Some ''deny''
      \<and> p_effect pol \<noteq> Some ''require_approval''"
  then show "result_for_single_policy pol True = ''unknown''"
    by (simp add: result_for_single_policy_def)
next
  fix m :: match_result
  assume u: "m_result m = ''unknown''"
  show "scan ''deny'' (applicable_sorted ms) \<noteq> Some m"
    using scan_Some [of "''deny''" ms m] u by auto
  show "scan ''require_approval'' (applicable_sorted ms) \<noteq> Some m"
    using scan_Some [of "''require_approval''" ms m] u by auto
  show "scan ''allow'' (applicable_sorted ms) \<noteq> Some m"
    using scan_Some [of "''allow''" ms m] u by auto
next
  assume h: "(\<exists>m\<in>set ms. m_matches m) \<and> (\<forall>m\<in>set ms. m_matches m \<longrightarrow> m_result m = ''unknown'')"
  then have "scan ''deny'' (applicable_sorted ms) = None"
    and "scan ''require_approval'' (applicable_sorted ms) = None"
    and "scan ''allow'' (applicable_sorted ms) = None"
    by (auto simp: scan_None)
  with h cfd_fallback show "compute_final_decision ms =
            \<lparr>allow = False, effect = ''deny'', reason = ''Default deny'',
             matched_policy = Some ''default-deny''\<rparr>"
    by blast
qed

theorem unknown_effect_never_selected_witness:
  "p_effect P4 \<noteq> Some ''allow'' \<and> p_effect P4 \<noteq> Some ''deny''
     \<and> p_effect P4 \<noteq> Some ''require_approval''
   \<and> m_result (result_of P4 True) = ''unknown''
   \<and> scan ''allow'' (applicable_sorted [result_of P4 True]) \<noteq> Some (result_of P4 True)
   \<and> m_matches (result_of P4 True)
   \<and> evaluate audit_repo ''payment-agent-1'' ''payment.transfer'' None None =
       Inr \<lparr>allow = False, effect = ''deny'', reason = ''Default deny'',
            matched_policy = Some ''default-deny''\<rparr>"
proof -
  have eff: "p_effect P4 \<noteq> Some ''allow'' \<and> p_effect P4 \<noteq> Some ''deny''
     \<and> p_effect P4 \<noteq> Some ''require_approval''"
    by (simp add: P4_def)
  note inst = unknown_effect_never_selected [of P4 "[result_of P4 True]"]
  from inst eff have unk: "result_for_single_policy P4 True = ''unknown''" by blast
  then have res: "m_result (result_of P4 True) = ''unknown''"
    by (simp add: result_of_def)
  from inst res
  have notsel: "scan ''allow'' (applicable_sorted [result_of P4 True]) \<noteq> Some (result_of P4 True)"
    by blast
  have h1: "\<exists>m\<in>set [result_of P4 True]. m_matches m" by (simp add: result_of_def)
  have h2: "\<forall>m\<in>set [result_of P4 True]. m_matches m \<longrightarrow> m_result m = ''unknown''"
    using res by simp
  from inst h1 h2 have "compute_final_decision [result_of P4 True] =
            \<lparr>allow = False, effect = ''deny'', reason = ''Default deny'',
             matched_policy = Some ''default-deny''\<rparr>"
    by blast
  then have ev: "evaluate audit_repo ''payment-agent-1'' ''payment.transfer'' None None =
       Inr \<lparr>allow = False, effect = ''deny'', reason = ''Default deny'',
            matched_policy = Some ''default-deny''\<rparr>"
    by (simp add: evaluate_def audit_trace)
  have mt: "m_matches (result_of P4 True)" by (simp add: result_of_def)
  from eff res notsel mt ev show ?thesis by blast
qed


section \<open>Amount constraints\<close>

lemma matches_True_amounts:
  assumes "matches pol ctx = Inr True"
  shows "amount_max_fails (opt_or (p_match pol) Map.empty) ctx = Inr False
    \<and> amount_min_fails (opt_or (p_match pol) Map.empty) ctx = Inr False"
  using assms unfolding matches_def Let_def
  by (auto split: sum.splits bool.splits if_splits)

lemma amount_max_fails_num:
  "mt ''amount_max'' = Some (VNum B) \<Longrightarrow> ctx ''amount'' = Some (VNum a) \<Longrightarrow>
     amount_max_fails mt ctx = Inr (B < a)"
  by (simp add: amount_max_fails_def get_or_def py_gt_def)

lemma amount_max_fails_missing:
  "mt ''amount_max'' = Some (VNum B) \<Longrightarrow> ctx ''amount'' = None \<Longrightarrow>
     amount_max_fails mt ctx = Inr True"
  by (simp add: amount_max_fails_def get_or_def py_gt_def)

lemma amount_min_fails_num:
  "mt ''amount_min'' = Some (VNum B) \<Longrightarrow> ctx ''amount'' = Some (VNum a) \<Longrightarrow>
     amount_min_fails mt ctx = Inr (a < B)"
  by (simp add: amount_min_fails_def get_or_def)

lemma amount_min_fails_missing:
  "mt ''amount_min'' = Some (VNum B) \<Longrightarrow> ctx ''amount'' = None \<Longrightarrow>
     amount_min_fails mt ctx = Inr (0 < B)"
  by (simp add: amount_min_fails_def get_or_def)

lemma matches_amount_max_policy:
  "matches (amount_max_policy B) ctx =
     (case amount_max_fails [''amount_max'' \<mapsto> VNum B] ctx of
        Inl e \<Rightarrow> Inl e | Inr f \<Rightarrow> Inr (\<not> f))"
  by (simp add: matches_def amount_max_policy_def matches_pattern_def opt_or_def
      amount_min_fails_def split: sum.splits bool.splits)

lemma matches_amount_min_policy:
  "matches (amount_min_policy B) ctx =
     (case amount_min_fails [''amount_min'' \<mapsto> VNum B] ctx of
        Inl e \<Rightarrow> Inl e | Inr f \<Rightarrow> Inr (\<not> f))"
  by (simp add: matches_def amount_min_policy_def matches_pattern_def opt_or_def
      amount_max_fails_def split: sum.splits bool.splits)

lemma amount_max_only_if:
  assumes "p_match pol = Some mt" "mt ''amount_max'' = Some (VNum B)"
  shows "(ctx ''amount'' = Some (VNum a) \<and> matches pol ctx = Inr True \<longrightarrow> a \<le> B)
    \<and> (ctx ''amount'' = None \<longrightarrow> matches pol ctx \<noteq> Inr True)"
proof (intro conjI impI)
  assume h: "ctx ''amount'' = Some (VNum a) \<and> matches pol ctx = Inr True"
  then have "amount_max_fails mt ctx = Inr False"
    using matches_True_amounts [of pol ctx] assms(1) by (simp add: opt_or_def)
  with amount_max_fails_num [of mt B ctx a] assms(2) h show "a \<le> B" by simp
next
  assume h: "ctx ''amount'' = None"
  show "matches pol ctx \<noteq> Inr True"
  proof
    assume "matches pol ctx = Inr True"
    then have "amount_max_fails mt ctx = Inr False"
      using matches_True_amounts [of pol ctx] assms(1) by (simp add: opt_or_def)
    with amount_max_fails_missing [of mt B ctx] assms(2) h show False by simp
  qed
qed

lemma amount_min_only_if:
  assumes "p_match pol = Some mt" "mt ''amount_min'' = Some (VNum B)"
  shows "(ctx ''amount'' = Some (VNum a) \<and> matches pol ctx = Inr True \<longrightarrow> B \<le> a)
    \<and> (ctx ''amount'' = None \<and> matches pol ctx = Inr True \<longrightarrow> B \<le> 0)"
proof (intro conjI impI)
  assume h: "ctx ''amount'' = Some (VNum a) \<and> matches pol ctx = Inr True"
  then have "amount_min_fails mt ctx = Inr False"
    using matches_True_amounts [of pol ctx] assms(1) by (simp add: opt_or_def)
  with amount_min_fails_num [of mt B ctx a] assms(2) h show "B \<le> a" by simp
next
  assume h: "ctx ''amount'' = None \<and> matches pol ctx = Inr True"
  then have "amount_min_fails mt ctx = Inr False"
    using matches_True_amounts [of pol ctx] assms(1) by (simp add: opt_or_def)
  with amount_min_fails_missing [of mt B ctx] assms(2) h show "B \<le> 0" by simp
qed

lemma amount_policies_exact:
  "(ctx ''amount'' = Some (VNum a) \<longrightarrow> matches (amount_max_policy B) ctx = Inr (a \<le> B))
   \<and> (ctx ''amount'' = None \<longrightarrow> matches (amount_max_policy B) ctx = Inr False)
   \<and> (ctx ''amount'' = Some (VNum a) \<longrightarrow> matches (amount_min_policy B) ctx = Inr (B \<le> a))
   \<and> (ctx ''amount'' = None \<longrightarrow> matches (amount_min_policy B) ctx = Inr (B \<le> 0))"
  by (auto simp: matches_amount_max_policy matches_amount_min_policy
      amount_max_fails_num amount_max_fails_missing
      amount_min_fails_num amount_min_fails_missing)

lemma py_lt_as_number:
  "as_number v = Some x \<Longrightarrow> as_number b = Some y \<Longrightarrow> py_lt v b = Inr (num_lt x y)"
  by (cases v; cases b) simp_all

lemma not_num_lt_iff_num_le:
  "x \<noteq> NaN \<Longrightarrow> y \<noteq> NaN \<Longrightarrow> (\<not> num_lt y x) = num_le x y"
  by (cases x; cases y) (auto simp: num_le_def)

lemma amount_max_fails_number:
  assumes "mt ''amount_max'' = Some b" "as_number b = Some y"
  shows "ctx ''amount'' = Some v \<Longrightarrow> as_number v = Some x \<Longrightarrow>
      amount_max_fails mt ctx = Inr (num_lt y x)"
    and "ctx ''amount'' = None \<Longrightarrow> amount_max_fails mt ctx = Inr (num_lt y PosInf)"
  using assms by (simp_all add: amount_max_fails_def get_or_def py_gt_def py_lt_as_number)

lemma amount_min_fails_number:
  assumes "mt ''amount_min'' = Some b" "as_number b = Some y"
  shows "ctx ''amount'' = Some v \<Longrightarrow> as_number v = Some x \<Longrightarrow>
      amount_min_fails mt ctx = Inr (num_lt x y)"
    and "ctx ''amount'' = None \<Longrightarrow> amount_min_fails mt ctx = Inr (num_lt (Fin 0) y)"
  using assms by (simp_all add: amount_min_fails_def get_or_def py_lt_as_number)

lemma amount_max_ordered:
  assumes "p_match pol = Some mt" "mt ''amount_max'' = Some b" "as_number b = Some y" "y \<noteq> NaN"
  shows "(ctx ''amount'' = Some v \<and> as_number v = Some x \<and> x \<noteq> NaN
        \<and> matches pol ctx = Inr True \<longrightarrow> num_le x y)
    \<and> (ctx ''amount'' = None \<and> matches pol ctx = Inr True \<longrightarrow> num_le PosInf y)"
proof (intro conjI impI)
  assume h: "ctx ''amount'' = Some v \<and> as_number v = Some x \<and> x \<noteq> NaN
        \<and> matches pol ctx = Inr True"
  then have "amount_max_fails mt ctx = Inr False"
    using matches_True_amounts [of pol ctx] assms(1) by (simp add: opt_or_def)
  with amount_max_fails_number(1) [of mt b y ctx v x] assms(2,3) h
  have "\<not> num_lt y x" by simp
  with not_num_lt_iff_num_le [of x y] assms(4) h show "num_le x y" by simp
next
  assume h: "ctx ''amount'' = None \<and> matches pol ctx = Inr True"
  then have "amount_max_fails mt ctx = Inr False"
    using matches_True_amounts [of pol ctx] assms(1) by (simp add: opt_or_def)
  with amount_max_fails_number(2) [of mt b y ctx] assms(2,3) h
  have "\<not> num_lt y PosInf" by simp
  with not_num_lt_iff_num_le [of PosInf y] assms(4) show "num_le PosInf y" by simp
qed

lemma amount_min_ordered:
  assumes "p_match pol = Some mt" "mt ''amount_min'' = Some b" "as_number b = Some y" "y \<noteq> NaN"
  shows "(ctx ''amount'' = Some v \<and> as_number v = Some x \<and> x \<noteq> NaN
        \<and> matches pol ctx = Inr True \<longrightarrow> num_le y x)
    \<and> (ctx ''amount'' = None \<and> matches pol ctx = Inr True \<longrightarrow> num_le y (Fin 0))"
proof (intro conjI impI)
  assume h: "ctx ''amount'' = Some v \<and> as_number v = Some x \<and> x \<noteq> NaN
        \<and> matches pol ctx = Inr True"
  then have "amount_min_fails mt ctx = Inr False"
    using matches_True_amounts [of pol ctx] assms(1) by (simp add: opt_or_def)
  with amount_min_fails_number(1) [of mt b y ctx v x] assms(2,3) h
  have "\<not> num_lt x y" by simp
  with not_num_lt_iff_num_le [of y x] assms(4) h show "num_le y x" by simp
next
  assume h: "ctx ''amount'' = None \<and> matches pol ctx = Inr True"
  then have "amount_min_fails mt ctx = Inr False"
    using matches_True_amounts [of pol ctx] assms(1) by (simp add: opt_or_def)
  with amount_min_fails_number(2) [of mt b y ctx] assms(2,3) h
  have "\<not> num_lt (Fin 0) y" by simp
  with not_num_lt_iff_num_le [of y "Fin 0"] assms(4) show "num_le y (Fin 0)" by simp
qed

lemma amount_examples:
  "matches (amount_max_policy 999) [''amount'' \<mapsto> VNum 999] = Inr True"
  "matches (amount_max_policy 999) [''amount'' \<mapsto> VNum 1000] = Inr False"
  "matches (amount_min_policy 10000) [''amount'' \<mapsto> VNum 10000] = Inr True"
  "matches (amount_min_policy 10000) [''amount'' \<mapsto> VNum 9999] = Inr False"
  "matches (amount_max_policy 999) Map.empty = Inr False"
  "matches (amount_min_policy 0) Map.empty = Inr True"
  "matches (amount_min_policy 1) Map.empty = Inr False"
  by (simp_all add: matches_amount_max_policy matches_amount_min_policy
      amount_max_fails_def amount_min_fails_def get_or_def py_gt_def)

text \<open>
  C5, as the code behaves. The claim fails for an amount that is the float NaN: both
  \<^verbatim>\<open>nan > 999\<close> and \<^verbatim>\<open>nan < 1000\<close> are false, so neither check of \<^verbatim>\<open>_matches\<close> rejects
  the policy. P1 (amount_max 999) and P2 (amount_min 1000) both match such a request, although
  NaN is neither at most 999 nor at least 1000.
\<close>

theorem amount_bounds_counterexample:
  "matches P1 (build_context ''payment-agent-1'' ''payment.transfer'' None
      (Some [''amount'' \<mapsto> VNaN])) = Inr True
   \<and> matches P2 (build_context ''payment-agent-1'' ''payment.transfer'' None
      (Some [''amount'' \<mapsto> VNaN])) = Inr True
   \<and> \<not> num_le NaN (Fin 999)
   \<and> \<not> num_le (Fin 1000) NaN"
  by (simp add: matches_defs build_context_def P1_def P2_def num_le_def)

text \<open>
  C5 amended (amount bounds), for amounts and bounds that are numbers other than NaN (ints,
  booleans, finite floats and the two infinities). A policy whose match mapping carries
  amount_max = B matches only if the amount of the context is at most B, a missing amount
  counting as plus infinity, so that it never matches a finite B; one that carries
  amount_min = B matches only if the amount is at least B, a missing amount counting as 0.
  For a policy that constrains nothing else and finite values the condition is exact: it
  matches if and only if the amount (plus infinity, respectively 0, when missing) is within
  the bound. The last conjuncts are the four values of the specification.
\<close>

theorem amount_bounds:
  "(p_match pol = Some mt \<and> mt ''amount_max'' = Some b \<and> as_number b = Some y \<and> y \<noteq> NaN \<longrightarrow>
      (ctx ''amount'' = Some v \<and> as_number v = Some x \<and> x \<noteq> NaN
          \<and> matches pol ctx = Inr True \<longrightarrow> num_le x y)
      \<and> (ctx ''amount'' = None \<and> matches pol ctx = Inr True \<longrightarrow> num_le PosInf y))
   \<and> (p_match pol = Some mt \<and> mt ''amount_min'' = Some b \<and> as_number b = Some y \<and> y \<noteq> NaN \<longrightarrow>
      (ctx ''amount'' = Some v \<and> as_number v = Some x \<and> x \<noteq> NaN
          \<and> matches pol ctx = Inr True \<longrightarrow> num_le y x)
      \<and> (ctx ''amount'' = None \<and> matches pol ctx = Inr True \<longrightarrow> num_le y (Fin 0)))
   \<and> (p_match pol = Some mt \<and> mt ''amount_max'' = Some (VNum B) \<longrightarrow>
      (ctx ''amount'' = Some (VNum a) \<and> matches pol ctx = Inr True \<longrightarrow> a \<le> B)
      \<and> (ctx ''amount'' = None \<longrightarrow> matches pol ctx \<noteq> Inr True))
   \<and> (p_match pol = Some mt \<and> mt ''amount_min'' = Some (VNum B) \<longrightarrow>
      (ctx ''amount'' = Some (VNum a) \<and> matches pol ctx = Inr True \<longrightarrow> B \<le> a)
      \<and> (ctx ''amount'' = None \<and> matches pol ctx = Inr True \<longrightarrow> B \<le> 0))
   \<and> (ctx ''amount'' = Some (VNum a) \<longrightarrow> matches (amount_max_policy B) ctx = Inr (a \<le> B))
   \<and> (ctx ''amount'' = None \<longrightarrow> matches (amount_max_policy B) ctx = Inr False)
   \<and> (ctx ''amount'' = Some (VNum a) \<longrightarrow> matches (amount_min_policy B) ctx = Inr (B \<le> a))
   \<and> (ctx ''amount'' = None \<longrightarrow> matches (amount_min_policy B) ctx = Inr (B \<le> 0))
   \<and> matches (amount_max_policy 999) [''amount'' \<mapsto> VNum 999] = Inr True
   \<and> matches (amount_max_policy 999) [''amount'' \<mapsto> VNum 1000] = Inr False
   \<and> matches (amount_min_policy 10000) [''amount'' \<mapsto> VNum 10000] = Inr True
   \<and> matches (amount_min_policy 10000) [''amount'' \<mapsto> VNum 9999] = Inr False"
proof -
  have c1: "p_match pol = Some mt \<and> mt ''amount_max'' = Some b \<and> as_number b = Some y \<and> y \<noteq> NaN \<longrightarrow>
      (ctx ''amount'' = Some v \<and> as_number v = Some x \<and> x \<noteq> NaN
          \<and> matches pol ctx = Inr True \<longrightarrow> num_le x y)
      \<and> (ctx ''amount'' = None \<and> matches pol ctx = Inr True \<longrightarrow> num_le PosInf y)"
    using amount_max_ordered [of pol mt b y ctx v x] by (intro impI) (elim conjE)
  have c2: "p_match pol = Some mt \<and> mt ''amount_min'' = Some b \<and> as_number b = Some y \<and> y \<noteq> NaN \<longrightarrow>
      (ctx ''amount'' = Some v \<and> as_number v = Some x \<and> x \<noteq> NaN
          \<and> matches pol ctx = Inr True \<longrightarrow> num_le y x)
      \<and> (ctx ''amount'' = None \<and> matches pol ctx = Inr True \<longrightarrow> num_le y (Fin 0))"
    using amount_min_ordered [of pol mt b y ctx v x] by (intro impI) (elim conjE)
  have c3: "p_match pol = Some mt \<and> mt ''amount_max'' = Some (VNum B) \<longrightarrow>
      (ctx ''amount'' = Some (VNum a) \<and> matches pol ctx = Inr True \<longrightarrow> a \<le> B)
      \<and> (ctx ''amount'' = None \<longrightarrow> matches pol ctx \<noteq> Inr True)"
    using amount_max_only_if [of pol mt B ctx a] by (intro impI) (elim conjE)
  have c4: "p_match pol = Some mt \<and> mt ''amount_min'' = Some (VNum B) \<longrightarrow>
      (ctx ''amount'' = Some (VNum a) \<and> matches pol ctx = Inr True \<longrightarrow> B \<le> a)
      \<and> (ctx ''amount'' = None \<and> matches pol ctx = Inr True \<longrightarrow> B \<le> 0)"
    using amount_min_only_if [of pol mt B ctx a] by (intro impI) (elim conjE)
  note e = amount_policies_exact [of ctx a B]
  note e1 = e [THEN conjunct1]
    and e2 = e [THEN conjunct2, THEN conjunct1]
    and e3 = e [THEN conjunct2, THEN conjunct2, THEN conjunct1]
    and e4 = e [THEN conjunct2, THEN conjunct2, THEN conjunct2]
  show ?thesis
    by (intro conjI) (rule c1 c2 c3 c4 e1 e2 e3 e4 amount_examples(1-4))+
qed

theorem amount_bounds_witness:
  "p_match P1 = Some [''amount_max'' \<mapsto> VNum 999]
   \<and> build_context ''payment-agent-1'' ''payment.transfer'' None
         (Some [''amount'' \<mapsto> VNum 500]) ''amount'' = Some (VNum 500)
   \<and> matches P1 (build_context ''payment-agent-1'' ''payment.transfer'' None
         (Some [''amount'' \<mapsto> VNum 500])) = Inr True
   \<and> num_le (Fin 500) (Fin 999)
   \<and> (500 :: rat) \<le> 999
   \<and> build_context ''payment-agent-1'' ''payment.transfer'' None None ''amount'' = None
   \<and> matches P1 (build_context ''payment-agent-1'' ''payment.transfer'' None None) \<noteq> Inr True
   \<and> p_match P2 = Some [''amount_min'' \<mapsto> VNum 1000]
   \<and> build_context ''payment-agent-1'' ''payment.transfer'' None
         (Some [''amount'' \<mapsto> VInf]) ''amount'' = Some VInf
   \<and> matches P2 (build_context ''payment-agent-1'' ''payment.transfer'' None
         (Some [''amount'' \<mapsto> VInf])) = Inr True
   \<and> num_le (Fin 1000) PosInf"
proof -
  let ?c500 = "build_context ''payment-agent-1'' ''payment.transfer'' None
         (Some [''amount'' \<mapsto> VNum 500])"
  let ?cinf = "build_context ''payment-agent-1'' ''payment.transfer'' None
         (Some [''amount'' \<mapsto> VInf])"
  let ?cnone = "build_context ''payment-agent-1'' ''payment.transfer'' None None"
  have m1: "p_match P1 = Some [''amount_max'' \<mapsto> VNum 999]"
    and b1: "[''amount_max'' \<mapsto> VNum 999] ''amount_max'' = Some (VNum 999)"
    and m2: "p_match P2 = Some [''amount_min'' \<mapsto> VNum 1000]"
    and b2: "[''amount_min'' \<mapsto> VNum 1000] ''amount_min'' = Some (VNum 1000)"
    by (simp_all add: P1_def P2_def)
  have n999: "as_number (VNum 999) = Some (Fin 999)" "Fin 999 \<noteq> NaN"
    and n500: "as_number (VNum 500) = Some (Fin 500)" "Fin 500 \<noteq> NaN"
    and n1000: "as_number (VNum 1000) = Some (Fin 1000)" "Fin 1000 \<noteq> NaN"
    and ninf: "as_number VInf = Some PosInf" "PosInf \<noteq> NaN"
    by simp_all
  have a500: "?c500 ''amount'' = Some (VNum 500)"
    and ainf: "?cinf ''amount'' = Some VInf"
    and anone: "?cnone ''amount'' = None"
    by (simp_all add: build_context_def)
  have t500: "matches P1 ?c500 = Inr True"
    by (simp add: matches_defs build_context_def P1_def)
  have tinf: "matches P2 ?cinf = Inr True"
    by (simp add: matches_defs build_context_def P2_def)
  from amount_bounds [where pol = P1 and mt = "[''amount_max'' \<mapsto> VNum 999]"
      and b = "VNum 999" and y = "Fin 999" and ctx = ?c500 and v = "VNum 500" and x = "Fin 500"
      and B = 999 and a = 500]
    m1 b1 n999 n500 a500 t500
  have le1: "num_le (Fin 500) (Fin 999)" and le1': "(500 :: rat) \<le> 999" by blast+
  from amount_bounds [where pol = P1 and mt = "[''amount_max'' \<mapsto> VNum 999]"
      and ctx = ?cnone and B = 999]
    m1 b1 anone
  have nm: "matches P1 ?cnone \<noteq> Inr True" by blast
  from amount_bounds [where pol = P2 and mt = "[''amount_min'' \<mapsto> VNum 1000]"
      and b = "VNum 1000" and y = "Fin 1000" and ctx = ?cinf and v = VInf and x = PosInf]
    m2 b2 n1000 ninf ainf tinf
  have le2: "num_le (Fin 1000) PosInf" by blast
  from m1 a500 t500 le1 le1' anone nm m2 ainf tinf le2 show ?thesis by blast
qed

section \<open>Trace completeness\<close>

lemma match_loop_length:
  "match_loop ps ctx = Inr rs \<Longrightarrow> length rs = length ps"
  using match_loop_Inr [of ps ctx rs] by (auto dest: list_all2_lengthD)

lemma match_loop_Inr_only_if:
  "match_loop ps ctx = Inr rs \<Longrightarrow> \<forall>p\<in>set ps. \<exists>b. matches p ctx = Inr b"
  by (induction ps arbitrary: rs) (auto split: sum.splits)

lemma match_loop_trace:
  assumes "match_loop ps ctx = Inr rs"
  shows "list_all2 (\<lambda>p m. m_policy m = p_id p
      \<and> (if m_matches m then matches p ctx = Inr True
          else matches p ctx = Inr False \<and> m_result m = ''not_applicable'')) ps rs"
proof -
  have "(\<exists>b. matches p ctx = Inr b \<and> m = result_of p b) \<Longrightarrow>
      m_policy m = p_id p
      \<and> (if m_matches m then matches p ctx = Inr True
          else matches p ctx = Inr False \<and> m_result m = ''not_applicable'')" for p m
    by (auto simp: result_of_def result_for_single_policy_def)
  with match_loop_Inr [OF assms] show ?thesis
    by (rule list_all2_mono)
qed

text \<open>
  C7 (trace completeness). Whenever \<open>evaluate_all\<close> returns, its matches list has exactly
  as many entries as the store's \<open>size\<close>, and the entries correspond one to one and in
  order to the policies of \<open>list\<close>: each carries its policy's id, a matching policy is
  marked as matched, and a policy that does not match the request is marked
  "not_applicable". \<open>evaluate_all\<close> returns such a trace exactly when no call of \<open>matches\<close>
  raises.
\<close>

theorem trace_completeness:
  "(evaluate_all repo s a r attrs = Inr out \<longrightarrow>
      length (r_matches out) = size_repo repo
      \<and> list_all2 (\<lambda>p m. m_policy m = p_id p
            \<and> (if m_matches m then matches p (build_context s a r attrs) = Inr True
                else matches p (build_context s a r attrs) = Inr False
                     \<and> m_result m = ''not_applicable''))
           (list_repo repo) (r_matches out))
   \<and> ((\<exists>res. evaluate_all repo s a r attrs = Inr res) \<longleftrightarrow>
        (\<forall>p\<in>set (list_repo repo). \<exists>b. matches p (build_context s a r attrs) = Inr b))"
proof (intro conjI impI)
  assume h: "evaluate_all repo s a r attrs = Inr out"
  from evaluate_all_Inr [OF h]
  have loop: "match_loop (list_repo repo) (build_context s a r attrs) = Inr (r_matches out)"
    by simp
  from match_loop_length [OF loop]
  show "length (r_matches out) = size_repo repo"
    by (simp add: list_repo_def size_repo_def)
  from match_loop_trace [OF loop]
  show "list_all2 (\<lambda>p m. m_policy m = p_id p
            \<and> (if m_matches m then matches p (build_context s a r attrs) = Inr True
                else matches p (build_context s a r attrs) = Inr False
                     \<and> m_result m = ''not_applicable''))
           (list_repo repo) (r_matches out)" .
next
  show "(\<exists>res. evaluate_all repo s a r attrs = Inr res) \<longleftrightarrow>
        (\<forall>p\<in>set (list_repo repo). \<exists>b. matches p (build_context s a r attrs) = Inr b)"
  proof
    assume "\<exists>res. evaluate_all repo s a r attrs = Inr res"
    then obtain res where "evaluate_all repo s a r attrs = Inr res" ..
    from evaluate_all_Inr [OF this] match_loop_Inr_only_if
    show "\<forall>p\<in>set (list_repo repo). \<exists>b. matches p (build_context s a r attrs) = Inr b"
      by blast
  next
    assume "\<forall>p\<in>set (list_repo repo). \<exists>b. matches p (build_context s a r attrs) = Inr b"
    from match_loop_total [OF this]
    show "\<exists>res. evaluate_all repo s a r attrs = Inr res"
      by (auto simp: evaluate_all_def)
  qed
qed

theorem trace_completeness_witness:
  "evaluate_all payment_repo ''finance-agent-1'' ''payment.transfer'' None
      (Some [''amount'' \<mapsto> VNum 15000]) =
     Inr \<lparr>r_matches = [result_of P1 False, result_of P2 True, result_of P3 True],
          r_final = compute_final_decision
            [result_of P1 False, result_of P2 True, result_of P3 True]\<rparr>
   \<and> length [result_of P1 False, result_of P2 True, result_of P3 True] = size_repo payment_repo
   \<and> m_result (result_of P1 False) = ''not_applicable''
   \<and> size_repo payment_repo = 3"
proof -
  let ?out = "\<lparr>r_matches = [result_of P1 False, result_of P2 True, result_of P3 True],
          r_final = compute_final_decision
            [result_of P1 False, result_of P2 True, result_of P3 True]\<rparr>"
  from trace_completeness [of payment_repo "''finance-agent-1''" "''payment.transfer''" None
      "Some [''amount'' \<mapsto> VNum 15000]" ?out] big_transfer_trace
  have "length (r_matches ?out) = size_repo payment_repo" by blast
  then have len: "length [result_of P1 False, result_of P2 True, result_of P3 True]
      = size_repo payment_repo" by simp
  have na: "m_result (result_of P1 False) = ''not_applicable''"
    by (simp add: payment_results)
  from big_transfer_trace len na payment_repo_size show ?thesis by blast
qed


section \<open>Exceptions\<close>













section \<open>How the context is built\<close>

lemma build_context_override:
  "attrs k = Some v \<Longrightarrow> build_context s a r (Some attrs) k = Some v"
  by (simp add: build_context_def map_add_def)

lemma build_context_subject_ignored:
  "attrs ''subject'' \<noteq> None \<Longrightarrow>
     build_context s a r (Some attrs) = build_context s' a r (Some attrs)"
  by (rule ext) (auto simp: build_context_def map_add_def split: option.splits)

lemma build_context_action_ignored:
  "attrs ''action'' \<noteq> None \<Longrightarrow>
     build_context s a r (Some attrs) = build_context s a' r (Some attrs)"
  by (rule ext) (auto simp: build_context_def map_add_def split: option.splits)

lemma build_context_resource_ignored:
  "attrs ''resource'' \<noteq> None \<Longrightarrow>
     build_context s a r (Some attrs) = build_context s a r' (Some attrs)"
  by (rule ext) (auto simp: build_context_def map_add_def split: option.splits)

lemma evaluate_all_by_context:
  "build_context s a r attrs = build_context s' a' r' attrs' \<Longrightarrow>
     evaluate_all repo s a r attrs = evaluate_all repo s' a' r' attrs'
     \<and> evaluate repo s a r attrs = evaluate repo s' a' r' attrs'"
  by (simp add: evaluate_def evaluate_all_def)

text \<open>
  C9 (attrs override the positional arguments). When the attrs mapping has one of the keys
  subject, action or resource, the context holds the value from attrs under that key, and the
  positional argument of that name has no influence on what \<open>evaluate_all\<close> and \<open>evaluate\<close>
  return: any two values for it give the same result.
\<close>

theorem attrs_override_positional:
  "((k = ''subject'' \<or> k = ''action'' \<or> k = ''resource'') \<and> attrs k = Some v
      \<longrightarrow> build_context s a r (Some attrs) k = Some v)
   \<and> (attrs ''subject'' \<noteq> None \<longrightarrow>
        evaluate_all repo s a r (Some attrs) = evaluate_all repo s' a r (Some attrs)
        \<and> evaluate repo s a r (Some attrs) = evaluate repo s' a r (Some attrs))
   \<and> (attrs ''action'' \<noteq> None \<longrightarrow>
        evaluate_all repo s a r (Some attrs) = evaluate_all repo s a' r (Some attrs)
        \<and> evaluate repo s a r (Some attrs) = evaluate repo s a' r (Some attrs))
   \<and> (attrs ''resource'' \<noteq> None \<longrightarrow>
        evaluate_all repo s a r (Some attrs) = evaluate_all repo s a r' (Some attrs)
        \<and> evaluate repo s a r (Some attrs) = evaluate repo s a r' (Some attrs))"
proof (intro conjI impI)
  assume "(k = ''subject'' \<or> k = ''action'' \<or> k = ''resource'') \<and> attrs k = Some v"
  then show "build_context s a r (Some attrs) k = Some v"
    by (simp add: build_context_override)
next
  assume "attrs ''subject'' \<noteq> None"
  then have "build_context s a r (Some attrs) = build_context s' a r (Some attrs)"
    by (rule build_context_subject_ignored)
  then
  show "evaluate_all repo s a r (Some attrs) = evaluate_all repo s' a r (Some attrs)"
    and "evaluate repo s a r (Some attrs) = evaluate repo s' a r (Some attrs)"
    using evaluate_all_by_context by blast+
next
  assume "attrs ''action'' \<noteq> None"
  then have "build_context s a r (Some attrs) = build_context s a' r (Some attrs)"
    by (rule build_context_action_ignored)
  then
  show "evaluate_all repo s a r (Some attrs) = evaluate_all repo s a' r (Some attrs)"
    and "evaluate repo s a r (Some attrs) = evaluate repo s a' r (Some attrs)"
    using evaluate_all_by_context by blast+
next
  assume "attrs ''resource'' \<noteq> None"
  then have "build_context s a r (Some attrs) = build_context s a r' (Some attrs)"
    by (rule build_context_resource_ignored)
  then
  show "evaluate_all repo s a r (Some attrs) = evaluate_all repo s a r' (Some attrs)"
    and "evaluate repo s a r (Some attrs) = evaluate repo s a r' (Some attrs)"
    using evaluate_all_by_context by blast+
qed

lemma approval_repo_list: "list_repo approval_repo = [P3]"
  by (simp add: approval_repo_def add_policy_def empty_repository_def list_repo_def P3_def)

lemma approval_as_finance:
  "evaluate approval_repo ''finance-agent-1'' ''payment.transfer'' None
      (Some [''subject'' \<mapsto> VStr ''finance-agent-1'', ''amount'' \<mapsto> VNum 20000]) =
     Inr \<lparr>allow = False, effect = ''require_approval'',
          reason = ''Approval required by policy P3'', matched_policy = Some ''P3''\<rparr>"
proof -
  have "matches P3 (build_context ''finance-agent-1'' ''payment.transfer'' None
      (Some [''subject'' \<mapsto> VStr ''finance-agent-1'', ''amount'' \<mapsto> VNum 20000])) = Inr True"
    by (simp add: matches_defs build_context_def P3_def)
  then have "evaluate_all approval_repo ''finance-agent-1'' ''payment.transfer'' None
      (Some [''subject'' \<mapsto> VStr ''finance-agent-1'', ''amount'' \<mapsto> VNum 20000]) =
     Inr \<lparr>r_matches = [result_of P3 True], r_final = compute_final_decision [result_of P3 True]\<rparr>"
    by (simp add: evaluate_all_def approval_repo_list)
  then show ?thesis
    by (simp add: evaluate_def cfd_defs result_of_def result_for_single_policy_def opt_or_def
        P3_def)
qed

lemma approval_as_intern:
  "evaluate approval_repo ''intern-7'' ''payment.transfer'' None
      (Some [''amount'' \<mapsto> VNum 20000]) =
     Inr \<lparr>allow = False, effect = ''deny'', reason = ''No matching policies'',
          matched_policy = Some ''default-deny''\<rparr>"
proof -
  have "matches P3 (build_context ''intern-7'' ''payment.transfer'' None
      (Some [''amount'' \<mapsto> VNum 20000])) = Inr False"
    by (simp add: matches_defs build_context_def P3_def)
  then have "evaluate_all approval_repo ''intern-7'' ''payment.transfer'' None
      (Some [''amount'' \<mapsto> VNum 20000]) =
     Inr \<lparr>r_matches = [result_of P3 False], r_final = compute_final_decision [result_of P3 False]\<rparr>"
    by (simp add: evaluate_all_def approval_repo_list)
  then show ?thesis
    by (simp add: evaluate_def cfd_defs result_of_def)
qed

theorem attrs_override_positional_witness:
  "[''subject'' \<mapsto> VStr ''finance-agent-1'', ''amount'' \<mapsto> VNum 20000] ''subject''
      = Some (VStr ''finance-agent-1'')
   \<and> build_context ''intern-7'' ''payment.transfer'' None
        (Some [''subject'' \<mapsto> VStr ''finance-agent-1'', ''amount'' \<mapsto> VNum 20000]) ''subject''
      = Some (VStr ''finance-agent-1'')
   \<and> evaluate approval_repo ''intern-7'' ''payment.transfer'' None
        (Some [''subject'' \<mapsto> VStr ''finance-agent-1'', ''amount'' \<mapsto> VNum 20000]) =
      Inr \<lparr>allow = False, effect = ''require_approval'',
           reason = ''Approval required by policy P3'', matched_policy = Some ''P3''\<rparr>
   \<and> evaluate approval_repo ''intern-7'' ''payment.transfer'' None
        (Some [''amount'' \<mapsto> VNum 20000]) =
      Inr \<lparr>allow = False, effect = ''deny'', reason = ''No matching policies'',
           matched_policy = Some ''default-deny''\<rparr>"
proof -
  let ?attrs = "[''subject'' \<mapsto> VStr ''finance-agent-1'', ''amount'' \<mapsto> VNum 20000]"
  have key: "?attrs ''subject'' = Some (VStr ''finance-agent-1'')" by simp
  then have present: "?attrs ''subject'' \<noteq> None" by simp
  note inst = attrs_override_positional [of "''subject''" ?attrs "VStr ''finance-agent-1''"
      "''intern-7''" "''payment.transfer''" None approval_repo "''finance-agent-1''"]
  from inst key
  have c: "build_context ''intern-7'' ''payment.transfer'' None (Some ?attrs) ''subject''
      = Some (VStr ''finance-agent-1'')" by blast
  from inst present
  have "evaluate approval_repo ''intern-7'' ''payment.transfer'' None (Some ?attrs)
      = evaluate approval_repo ''finance-agent-1'' ''payment.transfer'' None (Some ?attrs)"
    by blast
  with approval_as_finance
  have e: "evaluate approval_repo ''intern-7'' ''payment.transfer'' None (Some ?attrs) =
      Inr \<lparr>allow = False, effect = ''require_approval'',
           reason = ''Approval required by policy P3'', matched_policy = Some ''P3''\<rparr>"
    by simp
  from key c e approval_as_intern show ?thesis by blast
qed

text \<open>
  C10 (empty resource). Passing the empty string as resource builds the same context, and so
  gives the same result of \<open>evaluate_all\<close> and \<open>evaluate\<close>, as omitting the resource; unless
  attrs supplies a resource of its own, the context's resource is then the star. The empty
  string is therefore not matched literally: checked against that star, the empty pattern
  does not match, while the star pattern does. As a value the star has no wildcard meaning:
  a resource pattern is checked against it by the ordinary rules, so the pattern "external"
  does not match it.
\<close>

theorem empty_resource_is_omitted:
  "build_context s a (Some '''') attrs = build_context s a None attrs
   \<and> evaluate_all repo s a (Some '''') attrs = evaluate_all repo s a None attrs
   \<and> evaluate repo s a (Some '''') attrs = evaluate repo s a None attrs
   \<and> (opt_or attrs Map.empty ''resource'' = None
        \<longrightarrow> build_context s a (Some '''') attrs ''resource'' = Some (VStr ''*''))
   \<and> matches_pattern '''' (VStr ''*'') = Inr False
   \<and> matches_pattern ''*'' (VStr ''*'') = Inr True
   \<and> matches_pattern ''external'' (VStr ''*'') = Inr False"
proof -
  have ctx: "build_context s a (Some '''') attrs = build_context s a None attrs"
    by (simp add: build_context_def)
  have star: "opt_or attrs Map.empty ''resource'' = None
        \<longrightarrow> build_context s a (Some '''') attrs ''resource'' = Some (VStr ''*'')"
    by (cases attrs) (auto simp: build_context_def opt_or_def map_add_def)
  have pats: "matches_pattern '''' (VStr ''*'') = Inr False"
    "matches_pattern ''*'' (VStr ''*'') = Inr True"
    "matches_pattern ''external'' (VStr ''*'') = Inr False"
    by (simp_all add: pattern_defs)
  from ctx evaluate_all_by_context [OF ctx, of repo] star pats show ?thesis by blast
qed

theorem empty_resource_is_omitted_witness:
  "opt_or (Some [''amount'' \<mapsto> VNum 500]) Map.empty ''resource'' = None
   \<and> build_context ''payment-agent-1'' ''payment.transfer'' (Some '''')
        (Some [''amount'' \<mapsto> VNum 500]) ''resource'' = Some (VStr ''*'')
   \<and> evaluate payment_repo ''payment-agent-1'' ''payment.transfer'' (Some '''')
        (Some [''amount'' \<mapsto> VNum 500])
      = evaluate payment_repo ''payment-agent-1'' ''payment.transfer'' None
        (Some [''amount'' \<mapsto> VNum 500])"
proof -
  have hyp: "opt_or (Some [''amount'' \<mapsto> VNum 500]) Map.empty ''resource'' = None"
    by (simp add: opt_or_def)
  note inst = empty_resource_is_omitted [of "''payment-agent-1''" "''payment.transfer''"
      "Some [''amount'' \<mapsto> VNum 500]" payment_repo]
  from inst hyp show ?thesis by blast
qed


end
